theory Spec2Isabelle
  imports Main "HOL-Library.Char_ord" "HOL-Library.List_Lexorder"
begin

section \<open>Python values, errors and strings\<close>

text \<open>
  The exceptions that occur in \<^verbatim>\<open>duecredit/versions.py\<close> and in the two
  \<^verbatim>\<open>distutils.version\<close> classes it imports. A function that can raise returns
  \<open>error + 'a\<close>, with \<open>Inl\<close> for the exception.
\<close>

datatype error = TypeError | ValueError | KeyError | ImportError | AttributeError

text \<open>
  The values a module's \<^verbatim>\<open>__version__\<close> or \<^verbatim>\<open>version\<close> attribute holds in
  the model: \<^verbatim>\<open>None\<close>, a bool, an int, a str, or a tuple or list whose parts are of these
  kinds. Python's ints are unbounded, hence \<open>int\<close>.
\<close>

datatype pyatom = PNone | PBool bool | PInt int | PStr string

datatype pyval = Atom pyatom | PTuple "pyatom list" | PList "pyatom list"

definition digit_char :: "nat \<Rightarrow> char" where
  "digit_char d = ''0123456789'' ! (d mod 10)"

fun str_nat :: "nat \<Rightarrow> string" where
  "str_nat n = (if n < 10 then [digit_char n] else str_nat (n div 10) @ [digit_char (n mod 10)])"

declare str_nat.simps [simp del]

definition str_int :: "int \<Rightarrow> string" where
  "str_int i = (if i < 0 then CHR ''-'' # str_nat (nat (- i)) else str_nat (nat i))"

text \<open>\<^verbatim>\<open>str(x)\<close> on a part of a version sequence.\<close>

fun py_str :: "pyatom \<Rightarrow> string" where
  "py_str PNone = ''None''"
| "py_str (PBool b) = (if b then ''True'' else ''False'')"
| "py_str (PInt i) = str_int i"
| "py_str (PStr s) = s"

text \<open>Truth value testing, as in \<^verbatim>\<open>if version:\<close> and \<^verbatim>\<open>if not version:\<close>.\<close>

fun truthy :: "pyval \<Rightarrow> bool" where
  "truthy (Atom PNone) = False"
| "truthy (Atom (PBool b)) = b"
| "truthy (Atom (PInt i)) = (i \<noteq> 0)"
| "truthy (Atom (PStr s)) = (s \<noteq> [])"
| "truthy (PTuple xs) = (xs \<noteq> [])"
| "truthy (PList xs) = (xs \<noteq> [])"

text \<open>\<^verbatim>\<open>sep.join(xs)\<close>.\<close>

fun join :: "string \<Rightarrow> string list \<Rightarrow> string" where
  "join sep [] = []"
| "join sep [x] = x"
| "join sep (x # y # ys) = x @ sep @ join sep (y # ys)"

section \<open>The version classes of distutils\<close>

text \<open>
  \<^verbatim>\<open>versions.py\<close> imports \<^verbatim>\<open>StrictVersion\<close> and \<^verbatim>\<open>LooseVersion\<close> from
  \<^verbatim>\<open>distutils.version\<close> (line 17). Their constructors, parsers and \<^verbatim>\<open>__str__\<close> are
  translated here from the standard library, since the result of resolution and the text
  of the report are what they return.

  A registry value is a \<^verbatim>\<open>StrictVersion\<close> (its \<^verbatim>\<open>version\<close> triple and its
  \<^verbatim>\<open>prerelease\<close>), a \<^verbatim>\<open>LooseVersion\<close> (its \<^verbatim>\<open>vstring\<close> and its list of
  components) or an instance of \<^verbatim>\<open>UnknownVersion\<close>. Instances of \<^verbatim>\<open>UnknownVersion\<close>
  carry no data; the number is the identity of the object, which is all that \<^verbatim>\<open>is\<close>
  looks at.
\<close>

datatype component = CInt nat | CStr string

datatype version =
    StrictVersion "nat \<times> nat \<times> nat" "(char \<times> nat) option"
  | LooseVersion string "component list"
  | UnknownVersion nat

text \<open>
  The class attribute \<^verbatim>\<open>ExternalVersions.UNKNOWN = UnknownVersion()\<close> (line 48): one
  instance, created once.
\<close>

abbreviation UNKNOWN :: version where
  "UNKNOWN \<equiv> UnknownVersion 0"

definition is_digit :: "char \<Rightarrow> bool" where
  "is_digit c = (c \<in> set ''0123456789'')"

definition is_lower :: "char \<Rightarrow> bool" where
  "is_lower c = (c \<in> set ''abcdefghijklmnopqrstuvwxyz'')"

text \<open>\<^verbatim>\<open>int(s)\<close> on a string of ASCII digits.\<close>

definition int_of_digits :: "string \<Rightarrow> nat" where
  "int_of_digits s = foldl (\<lambda>a c. 10 * a + (of_char c - 48)) 0 s"

text \<open>The greedy group \<^verbatim>\<open>(\d+)\<close>: the digits matched and the rest of the input.\<close>

definition match_digits :: "string \<Rightarrow> (string \<times> string) option" where
  "match_digits s =
     (if takeWhile is_digit s = [] then None
      else Some (takeWhile is_digit s, dropWhile is_digit s))"

text \<open>
  \<^verbatim>\<open>version_re = ^(\d+) \. (\d+) (\. (\d+))? ([ab](\d+))?$\<close> with
  \<^verbatim>\<open>re.VERBOSE | re.ASCII\<close>. The result holds the groups 1, 2, 4, 5 and 6 (group 5 by
  its first character). Each optional group is tried and skipped when it does not match;
  \<^verbatim>\<open>$\<close> matches at the end of the string and before a newline that ends it.
\<close>

definition opt_patch :: "string \<Rightarrow> string option \<times> string" where
  "opt_patch r =
     (case r of
        [] \<Rightarrow> (None, r)
      | c # r' \<Rightarrow>
          if c = CHR ''.'' then
            (case match_digits r' of None \<Rightarrow> (None, r) | Some (p, r'') \<Rightarrow> (Some p, r''))
          else (None, r))"

definition opt_prerelease :: "string \<Rightarrow> (char \<times> string) option \<times> string" where
  "opt_prerelease r =
     (case r of
        [] \<Rightarrow> (None, r)
      | c # r' \<Rightarrow>
          if c = CHR ''a'' \<or> c = CHR ''b'' then
            (case match_digits r' of None \<Rightarrow> (None, r) | Some (n, r'') \<Rightarrow> (Some (c, n), r''))
          else (None, r))"

definition version_re_match ::
  "string \<Rightarrow> (string \<times> string \<times> string option \<times> (char \<times> string) option) option" where
  "version_re_match s =
     (case match_digits s of
        None \<Rightarrow> None
      | Some (major, r1) \<Rightarrow>
          (case r1 of
             [] \<Rightarrow> None
           | c # r2 \<Rightarrow>
               if c \<noteq> CHR ''.'' then None
               else
                 (case match_digits r2 of
                    None \<Rightarrow> None
                  | Some (minor, r3) \<Rightarrow>
                      (case opt_patch r3 of
                         (patch, r4) \<Rightarrow>
                           (case opt_prerelease r4 of
                              (pre, r5) \<Rightarrow>
                                if r5 = [] \<or> r5 = [CHR 0x0A]
                                then Some (major, minor, patch, pre)
                                else None)))))"

text \<open>\<^verbatim>\<open>StrictVersion.parse\<close>: a string that does not match raises \<^verbatim>\<open>ValueError\<close>.\<close>

definition StrictVersion_parse :: "string \<Rightarrow> error + version" where
  "StrictVersion_parse vstring =
     (case version_re_match vstring of
        None \<Rightarrow> Inl ValueError
      | Some (major, minor, patch, prerelease) \<Rightarrow>
          Inr (StrictVersion
                 (case patch of
                    Some p \<Rightarrow> (int_of_digits major, int_of_digits minor, int_of_digits p)
                  | None \<Rightarrow> (int_of_digits major, int_of_digits minor, 0))
                 (case prerelease of
                    Some (c, n) \<Rightarrow> Some (c, int_of_digits n)
                  | None \<Rightarrow> None)))"

text \<open>
  \<^verbatim>\<open>StrictVersion(version)\<close>, called on a truthy value only (line 80): the regular
  expression is matched against the argument, and \<^verbatim>\<open>re\<close> raises \<^verbatim>\<open>TypeError\<close> on
  anything that is not a string.
\<close>

fun StrictVersion_init :: "pyval \<Rightarrow> error + version" where
  "StrictVersion_init (Atom (PStr s)) = StrictVersion_parse s"
| "StrictVersion_init v = Inl TypeError"

text \<open>
  \<^verbatim>\<open>LooseVersion.parse\<close>: \<^verbatim>\<open>component_re = (\d+ | [a-z]+ | \.)\<close> splits the string
  into the runs of digits, the runs of lower-case letters, the dots, and the text between
  them; empty pieces and dots are dropped, and each piece that \<^verbatim>\<open>int\<close> accepts (a run of
  digits) is converted.
\<close>

datatype chclass = Digit | Lower | Dot | Other

definition chclass_of :: "char \<Rightarrow> chclass" where
  "chclass_of c =
     (if is_digit c then Digit else if is_lower c then Lower
      else if c = CHR ''.'' then Dot else Other)"

fun component_re_split :: "string \<Rightarrow> string list" where
  "component_re_split [] = []"
| "component_re_split (c # cs) =
     (case component_re_split cs of
        [] \<Rightarrow> [[c]]
      | [] # rs \<Rightarrow> [c] # rs
      | (d # r) # rs \<Rightarrow>
          if chclass_of c \<noteq> Dot \<and> chclass_of c = chclass_of d
          then (c # d # r) # rs else [c] # (d # r) # rs)"

definition to_component :: "string \<Rightarrow> component" where
  "to_component x = (if list_all is_digit x then CInt (int_of_digits x) else CStr x)"

definition LooseVersion_parse :: "string \<Rightarrow> version" where
  "LooseVersion_parse vstring =
     LooseVersion vstring
       (map to_component (filter (\<lambda>x. x \<noteq> [] \<and> x \<noteq> ''.'') (component_re_split vstring)))"

text \<open>\<^verbatim>\<open>LooseVersion(version)\<close>, called on a truthy value only (line 83).\<close>

fun LooseVersion_init :: "pyval \<Rightarrow> error + version" where
  "LooseVersion_init (Atom (PStr s)) = Inr (LooseVersion_parse s)"
| "LooseVersion_init v = Inl TypeError"

text \<open>
  \<^verbatim>\<open>__str__\<close> of the three classes. \<^verbatim>\<open>StrictVersion.__str__\<close> prints two
  components when the third is zero; \<^verbatim>\<open>LooseVersion.__str__\<close> returns the string it
  was built from; \<^verbatim>\<open>UnknownVersion.__str__\<close> (lines 30-31) returns \<^verbatim>\<open>"UNKNOWN"\<close>.
\<close>

fun version_str :: "version \<Rightarrow> string" where
  "version_str (StrictVersion (major, minor, patch) prerelease) =
     (if patch = 0 then join ''.'' [str_nat major, str_nat minor]
      else join ''.'' [str_nat major, str_nat minor, str_nat patch])
     @ (case prerelease of None \<Rightarrow> [] | Some (c, n) \<Rightarrow> c # str_nat n)"
| "version_str (LooseVersion vstring components) = vstring"
| "version_str (UnknownVersion i) = ''UNKNOWN''"

section \<open>The Unknown-version sentinel\<close>

text \<open>
  An operand of a comparison: a version object, or a value of a built-in type.
\<close>

datatype operand = Ver version | Val pyval

text \<open>
  \<^verbatim>\<open>UnknownVersion.__eq__\<close> (lines 33-36); \<open>self\<close> is the identity of the instance
  the method is called on. \<^verbatim>\<open>other is self\<close> holds for that very object only.
\<close>

definition UnknownVersion_eq :: "nat \<Rightarrow> operand \<Rightarrow> error + bool" where
  "UnknownVersion_eq self other =
     (if other = Ver (UnknownVersion self) then Inr True else Inl TypeError)"

text \<open>
  Ordering. For \<^verbatim>\<open>x < y\<close> Python calls \<^verbatim>\<open>type(x).__lt__(x, y)\<close> and, when that
  returns \<^verbatim>\<open>NotImplemented\<close>, the reflected \<^verbatim>\<open>type(y).__gt__(y, x)\<close>; when both
  return \<^verbatim>\<open>NotImplemented\<close> it raises \<^verbatim>\<open>TypeError\<close> (and the same for the other
  three operators). \<^verbatim>\<open>UnknownVersion\<close> defines none of the four methods and inherits
  those of \<^verbatim>\<open>object\<close>, which return \<^verbatim>\<open>NotImplemented\<close>. The methods of
  \<^verbatim>\<open>distutils.version.Version\<close> go through \<^verbatim>\<open>_cmp\<close>, which returns
  \<^verbatim>\<open>NotImplemented\<close> for an argument that is neither a string nor of the receiver's
  class; the built-in types return \<^verbatim>\<open>NotImplemented\<close> for an argument of a foreign
  type.
\<close>

datatype slot_result = NotImplemented | Returned bool

definition UnknownVersion_richcmp :: "nat \<Rightarrow> operand \<Rightarrow> slot_result" where
  "UnknownVersion_richcmp self other = NotImplemented"

fun richcmp_against_unknown :: "operand \<Rightarrow> nat \<Rightarrow> slot_result" where
  "richcmp_against_unknown (Ver (StrictVersion v p)) u = NotImplemented"
| "richcmp_against_unknown (Ver (LooseVersion s cs)) u = NotImplemented"
| "richcmp_against_unknown (Ver (UnknownVersion i)) u =
     UnknownVersion_richcmp i (Ver (UnknownVersion u))"
| "richcmp_against_unknown (Val v) u = NotImplemented"

definition richcmp :: "slot_result \<Rightarrow> slot_result \<Rightarrow> error + bool" where
  "richcmp direct reflected =
     (case direct of
        Returned b \<Rightarrow> Inr b
      | NotImplemented \<Rightarrow>
          (case reflected of Returned b \<Rightarrow> Inr b | NotImplemented \<Rightarrow> Inl TypeError))"

text \<open>
  \<^verbatim>\<open>u < other\<close> and \<^verbatim>\<open>u > other\<close> with the instance \<open>u\<close> of
  \<^verbatim>\<open>UnknownVersion\<close> on the left, \<^verbatim>\<open>other < u\<close> and \<^verbatim>\<open>other > u\<close> with it on
  the right. The operator only selects which pair of methods is called, and the pairs
  behave alike here.
\<close>

definition unknown_lt :: "nat \<Rightarrow> operand \<Rightarrow> error + bool" where
  "unknown_lt u other = richcmp (UnknownVersion_richcmp u other) (richcmp_against_unknown other u)"

definition unknown_gt :: "nat \<Rightarrow> operand \<Rightarrow> error + bool" where
  "unknown_gt u other = richcmp (UnknownVersion_richcmp u other) (richcmp_against_unknown other u)"

definition lt_unknown :: "operand \<Rightarrow> nat \<Rightarrow> error + bool" where
  "lt_unknown other u = richcmp (richcmp_against_unknown other u) (UnknownVersion_richcmp u other)"

definition gt_unknown :: "operand \<Rightarrow> nat \<Rightarrow> error + bool" where
  "gt_unknown other u = richcmp (richcmp_against_unknown other u) (UnknownVersion_richcmp u other)"

section \<open>Resolution: \<^verbatim>\<open>ExternalVersions._deduce_version\<close>\<close>

text \<open>
  A component handle is a module object: its \<^verbatim>\<open>__name__\<close> and its two version-bearing
  attributes, each of which may be missing (\<open>None\<close>: \<^verbatim>\<open>hasattr\<close> is false).
\<close>

record module =
  mod_name :: string
  attr_dunder_version :: "pyval option"
  attr_version :: "pyval option"

text \<open>
  The capabilities the code calls.
  \<^item> \<^verbatim>\<open>sys.modules\<close>: \<open>None\<close> when the name is not a key, otherwise the object stored
    under it, which is a module or Python's \<^verbatim>\<open>None\<close> (\<open>Some None\<close>; the import system
    itself stores \<^verbatim>\<open>None\<close> to block a name).
  \<^item> \<^verbatim>\<open>__import__\<close>: the module, or the exception raised. That is \<^verbatim>\<open>ImportError\<close>
    for a module that is not found, but it can be any other: \<^verbatim>\<open>__import__('')\<close> raises
    \<^verbatim>\<open>ValueError\<close>, and a module raises what its own code raises while it is loaded.
  \<^item> \<^verbatim>\<open>importlib.metadata.version\<close>: \<open>None\<close> when it raises an \<^verbatim>\<open>Exception\<close>.

  Each call of the last two is recorded.
\<close>

record env =
  sys_modules :: "string \<Rightarrow> module option option"
  import_module :: "string \<Rightarrow> error + module"
  metadata_version :: "string \<Rightarrow> string option"

datatype call = ImportCall string | MetadataCall string

text \<open>Lines 55-59: the first attribute that is present, whatever it holds.\<close>

definition probe :: "module \<Rightarrow> pyval" where
  "probe m =
     (case attr_dunder_version m of
        Some v \<Rightarrow> v
      | None \<Rightarrow> (case attr_version m of Some v \<Rightarrow> v | None \<Rightarrow> Atom PNone))"

text \<open>Lines 61-63: a tuple or a list becomes the string of its parts joined by dots.\<close>

fun stringify :: "pyval \<Rightarrow> pyval" where
  "stringify (PTuple xs) = Atom (PStr (join ''.'' (map py_str xs)))"
| "stringify (PList xs) = Atom (PStr (join ''.'' (map py_str xs)))"
| "stringify v = v"

text \<open>Line 73: \<^verbatim>\<open>{'citeproc': 'citeproc-py'}.get(modname, modname)\<close>.\<close>

definition aliases :: "(string \<times> string) list" where
  "aliases = [(''citeproc'', ''citeproc-py'')]"

definition dist_name :: "string \<Rightarrow> string" where
  "dist_name modname = (case map_of aliases modname of Some d \<Rightarrow> d | None \<Rightarrow> modname)"

text \<open>
  Lines 65-76: the metadata fallback. It returns the value of \<^verbatim>\<open>version\<close> afterwards and
  the calls made.
\<close>

definition metadata_fallback :: "env \<Rightarrow> module \<Rightarrow> pyval \<Rightarrow> pyval \<times> call list" where
  "metadata_fallback e m version =
     (if \<not> truthy version then
        (case metadata_version e (dist_name (mod_name m)) of
           Some s \<Rightarrow> (Atom (PStr s), [MetadataCall (dist_name (mod_name m))])
         | None \<Rightarrow> (version, [MetadataCall (dist_name (mod_name m))]))
      else (version, []))"

text \<open>Lines 78-85: strict parse, loose parse on \<^verbatim>\<open>ValueError\<close>, or the sentinel.\<close>

definition parse_version :: "pyval \<Rightarrow> error + version" where
  "parse_version version =
     (if truthy version then
        (case StrictVersion_init version of
           Inr v \<Rightarrow> Inr v
         | Inl ValueError \<Rightarrow> LooseVersion_init version
         | Inl err \<Rightarrow> Inl err)
      else Inr UNKNOWN)"

definition deduce_version :: "env \<Rightarrow> module \<Rightarrow> (error + version) \<times> call list" where
  "deduce_version e m =
     (case metadata_fallback e m (stringify (probe m)) of
        (version, cs) \<Rightarrow> (parse_version version, cs))"

section \<open>The registry: \<^verbatim>\<open>ExternalVersions\<close>\<close>

text \<open>
  A Python \<^verbatim>\<open>dict\<close> from names to versions: an association list in insertion order.
  \<^verbatim>\<open>k in d\<close>, \<^verbatim>\<open>d.get(k, default)\<close>, \<^verbatim>\<open>d[k]\<close> (which raises \<^verbatim>\<open>KeyError\<close>) and
  \<^verbatim>\<open>d[k] = v\<close>.
\<close>

type_synonym dict = "(string \<times> version) list"

definition dict_contains :: "dict \<Rightarrow> string \<Rightarrow> bool" where
  "dict_contains d k = (k \<in> set (map fst d))"

definition dict_get :: "dict \<Rightarrow> string \<Rightarrow> version \<Rightarrow> version" where
  "dict_get d k dflt = (case map_of d k of Some v \<Rightarrow> v | None \<Rightarrow> dflt)"

definition dict_getitem :: "dict \<Rightarrow> string \<Rightarrow> error + version" where
  "dict_getitem d k = (case map_of d k of Some v \<Rightarrow> Inr v | None \<Rightarrow> Inl KeyError)"

fun dict_setitem :: "dict \<Rightarrow> string \<Rightarrow> version \<Rightarrow> dict" where
  "dict_setitem [] k v = [(k, v)]"
| "dict_setitem ((k', v') # d) k v =
     (if k' = k then (k, v) # d else (k', v') # dict_setitem d k v)"

text \<open>
  Dicts are mutable objects, so they live in a store: \<open>heap\<close> maps an address to the dict
  at that address, \<open>next_addr\<close> is the first address not yet allocated. The state also
  holds the record of the capability calls made so far.
\<close>

record world =
  heap :: "nat \<Rightarrow> dict"
  next_addr :: nat
  calls :: "call list"

text \<open>
  An \<^verbatim>\<open>ExternalVersions\<close> object has the single field \<^verbatim>\<open>_versions\<close>, set once in
  \<^verbatim>\<open>__init__\<close> (lines 50-51) to a new empty dict. The object is represented by the
  address of that dict, called \<open>self\<close> below.
\<close>

definition ExternalVersions_init :: "world \<Rightarrow> nat \<times> world" where
  "ExternalVersions_init w =
     (next_addr w, w\<lparr>heap := (heap w)(next_addr w := []), next_addr := Suc (next_addr w)\<rparr>)"

text \<open>
  The argument of \<^verbatim>\<open>__getitem__\<close>: a name (\<^verbatim>\<open>isinstance(module, str)\<close>) or a handle.
\<close>

datatype key = Name string | Handle module

text \<open>
  Lines 90-94: \<open>modname\<close> is the string itself or the handle's \<^verbatim>\<open>__name__\<close>, and
  \<open>module\<close> is \<^verbatim>\<open>None\<close> for a string.
\<close>

fun key_modname :: "key \<Rightarrow> string" where
  "key_modname (Name s) = s"
| "key_modname (Handle m) = mod_name m"

fun key_module :: "key \<Rightarrow> module option" where
  "key_module (Name s) = None"
| "key_module (Handle m) = Some m"

text \<open>
  \<^verbatim>\<open>_deduce_version\<close> on the object \<^verbatim>\<open>__getitem__\<close> passes to it, a module or
  \<^verbatim>\<open>None\<close>. \<^verbatim>\<open>None\<close> has neither version attribute, so \<^verbatim>\<open>version\<close> stays
  \<^verbatim>\<open>None\<close> and line 70, outside the \<^verbatim>\<open>try\<close>, reads \<^verbatim>\<open>None.__name__\<close>, which
  raises \<^verbatim>\<open>AttributeError\<close>.
\<close>

definition deduce_version_of :: "env \<Rightarrow> module option \<Rightarrow> (error + version) \<times> call list" where
  "deduce_version_of e obj =
     (case obj of Some m \<Rightarrow> deduce_version e m | None \<Rightarrow> (Inl AttributeError, []))"

text \<open>
  Lines 106 and 108: resolve, store under \<open>modname\<close>, return the stored value. An
  exception of \<^verbatim>\<open>_deduce_version\<close> leaves the dict as it was.
\<close>

definition store_deduced ::
  "env \<Rightarrow> nat \<Rightarrow> string \<Rightarrow> module option \<Rightarrow> world
     \<Rightarrow> (error + version option) \<times> world" where
  "store_deduced e self modname m w =
     (case deduce_version_of e m of
        (Inl err, cs) \<Rightarrow> (Inl err, w\<lparr>calls := calls w @ cs\<rparr>)
      | (Inr v, cs) \<Rightarrow>
          (Inr (Some (dict_get (dict_setitem (heap w self) modname v) modname UNKNOWN)),
           w\<lparr>heap := (heap w)(self := dict_setitem (heap w self) modname v),
              calls := calls w @ cs\<rparr>))"

text \<open>
  \<^verbatim>\<open>ExternalVersions.__getitem__\<close> (lines 87-108). The result \<open>Inr None\<close> is Python's
  \<^verbatim>\<open>None\<close>. Line 101 catches \<^verbatim>\<open>ImportError\<close> only: any other exception of
  \<^verbatim>\<open>__import__\<close> reaches the caller.
\<close>

definition getitem ::
  "env \<Rightarrow> nat \<Rightarrow> key \<Rightarrow> world \<Rightarrow> (error + version option) \<times> world" where
  "getitem e self k w =
     (let modname = key_modname k; module = key_module k
      in if \<not> dict_contains (heap w self) modname then
           (case module of
              Some m \<Rightarrow> store_deduced e self modname (Some m) w
            | None \<Rightarrow>
                (case sys_modules e modname of
                   None \<Rightarrow>
                     (case import_module e modname of
                        Inl ImportError \<Rightarrow>
                          (Inr None, w\<lparr>calls := calls w @ [ImportCall modname]\<rparr>)
                      | Inl err \<Rightarrow>
                          (Inl err, w\<lparr>calls := calls w @ [ImportCall modname]\<rparr>)
                      | Inr m \<Rightarrow>
                          store_deduced e self modname (Some m)
                            (w\<lparr>calls := calls w @ [ImportCall modname]\<rparr>))
                 | Some obj \<Rightarrow> store_deduced e self modname obj w))
         else (Inr (Some (dict_get (heap w self) modname UNKNOWN)), w))"

text \<open>\<^verbatim>\<open>keys\<close> (lines 110-112) and \<^verbatim>\<open>__contains__\<close> (lines 114-115).\<close>

definition keys :: "nat \<Rightarrow> world \<Rightarrow> string list" where
  "keys self w = map fst (heap w self)"

definition contains :: "nat \<Rightarrow> world \<Rightarrow> string \<Rightarrow> bool" where
  "contains self w item = dict_contains (heap w self) item"

text \<open>
  The property \<^verbatim>\<open>versions\<close> (lines 117-120): \<^verbatim>\<open>self._versions.copy()\<close> allocates a
  new dict with the same items and returns its address.
\<close>

definition versions :: "nat \<Rightarrow> world \<Rightarrow> nat \<times> world" where
  "versions self w =
     (next_addr w,
      w\<lparr>heap := (heap w)(next_addr w := heap w self), next_addr := Suc (next_addr w)\<rparr>)"

text \<open>
  What a caller can do to a dict it holds the address of: replace its contents by any
  other (every sequence of insertions, updates and deletions amounts to that).
\<close>

definition mutate :: "nat \<Rightarrow> dict \<Rightarrow> world \<Rightarrow> world" where
  "mutate a d w = w\<lparr>heap := (heap w)(a := d)\<rparr>"

subsection \<open>\<^verbatim>\<open>dumps\<close>\<close>

text \<open>
  The parameter \<^verbatim>\<open>indent: bool | str\<close>, and its truth value.
\<close>

datatype indent = IndentBool bool | IndentStr string

fun indent_truthy :: "indent \<Rightarrow> bool" where
  "indent_truthy (IndentBool b) = b"
| "indent_truthy (IndentStr s) = (s \<noteq> [])"

text \<open>
  Line 140, \<^verbatim>\<open>' ' if indent is True else indent\<close>, evaluated for a truthy \<open>indent\<close>
  only: a bool is then \<^verbatim>\<open>True\<close>.
\<close>

fun indent_string :: "indent \<Rightarrow> string" where
  "indent_string (IndentBool b) = '' ''"
| "indent_string (IndentStr s) = s"

text \<open>
  Line 137: \<^verbatim>\<open>["{}={}".format(k, self._versions[k]) for k in sorted(self._versions)]\<close>.
\<close>

fun format_items :: "dict \<Rightarrow> string list \<Rightarrow> error + string list" where
  "format_items d [] = Inr []"
| "format_items d (k # ks) =
     (case dict_getitem d k of
        Inl err \<Rightarrow> Inl err
      | Inr v \<Rightarrow>
          (case format_items d ks of
             Inl err \<Rightarrow> Inl err
           | Inr items \<Rightarrow> Inr ((k @ ''='' @ version_str v) # items)))"

text \<open>
  Lines 122-144; \<open>linesep\<close> is \<^verbatim>\<open>os.linesep\<close>, the line terminator of the platform.
\<close>

definition dumps :: "string \<Rightarrow> nat \<Rightarrow> world \<Rightarrow> indent \<Rightarrow> string \<Rightarrow> error + string" where
  "dumps linesep self w indent preamble =
     (case format_items (heap w self) (sort (map fst (heap w self))) of
        Inl err \<Rightarrow> Inl err
      | Inr items \<Rightarrow>
          Inr (if indent_truthy indent then
                 preamble @ join (linesep @ indent_string indent) ([] # items) @ linesep
               else preamble @ '' '' @ join '' '' items))"

section \<open>Example inputs\<close>

text \<open>
  A module \<^verbatim>\<open>a\<close> with \<^verbatim>\<open>__version__ = "1.0.0"\<close>, an environment in which nothing
  is loaded, every import raises \<^verbatim>\<open>ImportError\<close> and no distribution has metadata, and
  the state
  right after \<^verbatim>\<open>ExternalVersions()\<close> at address 0, empty and holding the two entries of
  the report examples.
\<close>

definition module_a :: module where
  "module_a = \<lparr>mod_name = ''a'', attr_dunder_version = Some (Atom (PStr ''1.0.0'')),
               attr_version = None\<rparr>"

definition bare_env :: env where
  "bare_env = \<lparr>sys_modules = (\<lambda>n. None), import_module = (\<lambda>n. Inl ImportError),
               metadata_version = (\<lambda>n. None)\<rparr>"

definition fresh_world :: world where
  "fresh_world = \<lparr>heap = (\<lambda>a. []), next_addr = 1, calls = []\<rparr>"

definition report_world :: world where
  "report_world =
     \<lparr>heap = (\<lambda>a. [(''b'', UNKNOWN), (''a'', StrictVersion (1, 0, 0) None)]),
      next_addr = 1, calls = []\<rparr>"

text \<open>
  The environment of a plain interpreter as far as the empty name goes:
  \<^verbatim>\<open>__import__('')\<close> raises \<^verbatim>\<open>ValueError\<close> (\<^verbatim>\<open>Empty module name\<close>).
\<close>

definition empty_name_env :: env where
  "empty_name_env =
     \<lparr>sys_modules = (\<lambda>n. None),
      import_module = (\<lambda>n. if n = [] then Inl ValueError else Inl ImportError),
      metadata_version = (\<lambda>n. None)\<rparr>"

text \<open>A module \<^verbatim>\<open>m\<close> with \<^verbatim>\<open>__version__ = 5\<close>, a number.\<close>

definition module_numeric :: module where
  "module_numeric = \<lparr>mod_name = ''m'', attr_dunder_version = Some (Atom (PInt 5)),
                     attr_version = None\<rparr>"

text \<open>
  A module \<^verbatim>\<open>citeproc\<close> without version attributes, and an environment whose metadata
  knows the distribution \<^verbatim>\<open>citeproc-py\<close> only.
\<close>

definition module_citeproc :: module where
  "module_citeproc = \<lparr>mod_name = ''citeproc'', attr_dunder_version = None,
                      attr_version = None\<rparr>"

definition citeproc_env :: env where
  "citeproc_env = \<lparr>sys_modules = (\<lambda>n. None), import_module = (\<lambda>n. Inl ImportError),
      metadata_version = (\<lambda>n. if n = ''citeproc-py'' then Some ''0.6.0'' else None)\<rparr>"

text \<open>
  Modules with \<^verbatim>\<open>__version__ = "2021.08-beta"\<close>, with \<^verbatim>\<open>__version__ = (1, 4, 2)\<close>,
  and with \<^verbatim>\<open>__version__ = ""\<close> next to \<^verbatim>\<open>version = "1.2.3"\<close>.
\<close>

definition module_beta :: module where
  "module_beta = \<lparr>mod_name = ''beta'',
                   attr_dunder_version = Some (Atom (PStr ''2021.08-beta'')),
                   attr_version = None\<rparr>"

definition module_tuple :: module where
  "module_tuple = \<lparr>mod_name = ''t'',
                    attr_dunder_version = Some (PTuple [PInt 1, PInt 4, PInt 2]),
                    attr_version = None\<rparr>"

definition module_empty_dunder :: module where
  "module_empty_dunder = \<lparr>mod_name = ''d'', attr_dunder_version = Some (Atom (PStr [])),
                           attr_version = Some (Atom (PStr ''1.2.3''))\<rparr>"

section \<open>Properties of the sentinel\<close>

text \<open>
  Claim C3. \<^verbatim>\<open>UnknownVersion.__eq__\<close> returns \<^verbatim>\<open>True\<close> exactly when the other operand
  is the instance itself and raises \<^verbatim>\<open>TypeError\<close> for every other operand; the
  ordering comparisons \<^verbatim>\<open><\<close> and \<^verbatim>\<open>>\<close> with an instance on either side raise
  \<^verbatim>\<open>TypeError\<close>.
\<close>

theorem UnknownVersion_comparisons:
  "(UnknownVersion_eq self other = Inr True \<longleftrightarrow> other = Ver (UnknownVersion self))
   \<and> (other \<noteq> Ver (UnknownVersion self) \<longrightarrow> UnknownVersion_eq self other = Inl TypeError)
   \<and> unknown_lt self other = Inl TypeError \<and> unknown_gt self other = Inl TypeError
   \<and> lt_unknown other self = Inl TypeError \<and> gt_unknown other self = Inl TypeError"
proof -
  have slot: "richcmp_against_unknown other self = NotImplemented"
    by (cases "(other, self)" rule: richcmp_against_unknown.cases)
       (simp_all add: UnknownVersion_richcmp_def)
  show ?thesis
    by (simp add: UnknownVersion_eq_def unknown_lt_def unknown_gt_def lt_unknown_def
        gt_unknown_def richcmp_def UnknownVersion_richcmp_def slot)
qed

theorem UnknownVersion_comparisons_witness:
  "Ver (StrictVersion (1, 0, 0) None) \<noteq> Ver UNKNOWN
   \<and> UnknownVersion_eq 0 (Ver (StrictVersion (1, 0, 0) None)) = Inl TypeError
   \<and> UnknownVersion_eq 0 (Ver UNKNOWN) = Inr True
   \<and> unknown_lt 0 (Val (Atom (PStr ''0''))) = Inl TypeError"
  using UnknownVersion_comparisons [of 0 "Ver (StrictVersion (1, 0, 0) None)"]
    UnknownVersion_comparisons [of 0 "Ver UNKNOWN"]
    UnknownVersion_comparisons [of 0 "Val (Atom (PStr ''0''))"]
  by simp

section \<open>Properties of the cache\<close>

lemma map_of_dict_setitem_other:
  "k \<noteq> n \<Longrightarrow> map_of (dict_setitem d k v) n = map_of d n"
  by (induction d) auto

lemma map_of_dict_setitem_same:
  "map_of (dict_setitem d k v) k = Some v"
  by (induction d) auto

lemma dict_contains_map_of: "dict_contains d k \<longleftrightarrow> map_of d k \<noteq> None"
  by (simp add: dict_contains_def map_of_eq_None_iff)

lemma store_deduced_keeps:
  assumes "map_of (heap w self) n = Some v" and "modname \<noteq> n"
  shows "map_of (heap (snd (store_deduced e self modname m w)) self) n = Some v"
  using assms
  by (auto simp: store_deduced_def map_of_dict_setitem_other split: prod.splits sum.splits)

lemma store_deduced_keeps_calls:
  assumes "map_of (heap w self) n = Some v" and "modname \<noteq> n"
  shows "map_of (heap (snd (store_deduced e self modname m (w\<lparr>calls := cs\<rparr>))) self) n = Some v"
  using store_deduced_keeps [of "w\<lparr>calls := cs\<rparr>" self n v modname e m] assms by simp

lemma getitem_keeps:
  assumes "map_of (heap w self) n = Some v"
  shows "map_of (heap (snd (getitem e self k w)) self) n = Some v"
proof (cases "dict_contains (heap w self) (key_modname k)")
  case True
  then show ?thesis using assms by (simp add: getitem_def)
next
  case False
  then have ne: "key_modname k \<noteq> n"
    using assms by (auto simp: dict_contains_map_of)
  show ?thesis
    using False assms ne
    by (auto simp: getitem_def Let_def store_deduced_keeps store_deduced_keeps_calls
        split: option.splits sum.splits error.splits)
qed

text \<open>
  Claim C1. Once a name \<open>n\<close> has an entry \<open>v\<close>, a lookup of \<open>n\<close> (by name or by a
  handle of that name), in any environment, returns \<open>v\<close> and leaves the whole state as
  it was: the cache is not written and the record of capability calls does not grow, so
  neither \<^verbatim>\<open>__import__\<close> nor the metadata lookup is called. The entry also survives
  every other lookup, so this holds for every later lookup of \<open>n\<close>.
\<close>

theorem cached_lookup_runs_nothing:
  assumes "map_of (heap w self) n = Some v" and "key_modname k = n"
  shows "getitem e self k w = (Inr (Some v), w)
       \<and> map_of (heap (snd (getitem e' self k' w)) self) n = Some v"
proof -
  have "dict_contains (heap w self) (key_modname k)"
    using assms by (simp add: dict_contains_map_of)
  then have "getitem e self k w = (Inr (Some v), w)"
    using assms by (simp add: getitem_def dict_get_def)
  then show ?thesis using getitem_keeps [OF assms(1)] by simp
qed

theorem cached_lookup_runs_nothing_witness:
  "map_of (heap report_world 0) ''a'' = Some (StrictVersion (1, 0, 0) None)
   \<and> key_modname (Handle module_a) = ''a''
   \<and> getitem bare_env 0 (Handle module_a) report_world
       = (Inr (Some (StrictVersion (1, 0, 0) None)), report_world)
   \<and> map_of (heap (snd (getitem bare_env 0 (Name ''c'') report_world)) 0) ''a''
       = Some (StrictVersion (1, 0, 0) None)"
proof -
  have h1: "map_of (heap report_world 0) ''a'' = Some (StrictVersion (1, 0, 0) None)"
    by (simp add: report_world_def)
  have h2: "key_modname (Handle module_a) = ''a''"
    by (simp add: module_a_def)
  show ?thesis
    using h1 h2 cached_lookup_runs_nothing [OF h1 h2, of bare_env bare_env "Name ''c''"]
    by simp
qed

lemma store_deduced_calls:
  "calls (snd (store_deduced e self n m w)) = calls w @ snd (deduce_version_of e m)"
  by (auto simp: store_deduced_def split: prod.splits sum.splits)

text \<open>
  Claim C4, for the failure that line 101 catches. A lookup by name of a name that is not
  cached and not in \<^verbatim>\<open>sys.modules\<close>, whose import raises \<^verbatim>\<open>ImportError\<close>, returns
  \<^verbatim>\<open>None\<close> and writes nothing into the cache, so \<^verbatim>\<open>name in registry\<close> is still
  false; the next lookup of the name calls \<^verbatim>\<open>__import__\<close> again, in any environment
  \<open>e'\<close> where the name is still not in \<^verbatim>\<open>sys.modules\<close>. An import that raises another
  exception does not return \<^verbatim>\<open>None\<close>: the exception reaches the caller, and nothing is
  cached either.
\<close>

theorem failed_import_not_cached:
  assumes "\<not> contains self w n" and "sys_modules e n = None"
  shows "(import_module e n = Inl ImportError \<longrightarrow>
            getitem e self (Name n) w = (Inr None, w\<lparr>calls := calls w @ [ImportCall n]\<rparr>))
       \<and> (import_module e n = Inl err \<longrightarrow>
            \<not> contains self (snd (getitem e self (Name n) w)) n
            \<and> heap (snd (getitem e self (Name n) w)) = heap w
            \<and> (sys_modules e' n = None \<longrightarrow>
                 (\<exists>cs. calls (snd (getitem e' self (Name n) (snd (getitem e self (Name n) w))))
                         = calls w @ [ImportCall n] @ ImportCall n # cs)))
       \<and> (import_module e n = Inl err \<and> err \<noteq> ImportError \<longrightarrow>
            getitem e self (Name n) w = (Inl err, w\<lparr>calls := calls w @ [ImportCall n]\<rparr>))"
proof -
  let ?w1 = "w\<lparr>calls := calls w @ [ImportCall n]\<rparr>"
  have nc0: "\<not> dict_contains (heap w self) n"
    using assms(1) by (simp add: contains_def)
  have caught: "getitem e self (Name n) w = (Inr None, ?w1)"
    if "import_module e n = Inl ImportError"
    using that nc0 assms(2) by (simp add: getitem_def)
  have raised: "getitem e self (Name n) w = (Inl err, ?w1)"
    if "import_module e n = Inl err" and "err \<noteq> ImportError"
    using that nc0 assms(2) by (cases err) (simp_all add: getitem_def)
  have state: "snd (getitem e self (Name n) w) = ?w1" if "import_module e n = Inl err"
    using that caught raised by (cases "err = ImportError") simp_all
  have nc: "\<not> dict_contains (heap ?w1 self) n"
    using nc0 by simp
  have again: "\<exists>cs. calls (snd (getitem e' self (Name n) ?w1))
                 = calls w @ [ImportCall n] @ ImportCall n # cs"
    if "sys_modules e' n = None"
  proof (cases "import_module e' n")
    case (Inl err')
    then show ?thesis using that nc by (cases err') (simp_all add: getitem_def)
  next
    case (Inr m)
    then show ?thesis using that nc by (simp add: getitem_def store_deduced_calls)
  qed
  show ?thesis
    using caught raised state nc again by (simp add: contains_def)
qed

theorem failed_import_not_cached_witness:
  "\<not> contains 0 fresh_world ''zz'' \<and> sys_modules bare_env ''zz'' = None
   \<and> import_module bare_env ''zz'' = Inl ImportError
   \<and> fst (getitem bare_env 0 (Name ''zz'') fresh_world) = Inr None
   \<and> \<not> contains 0 (snd (getitem bare_env 0 (Name ''zz'') fresh_world)) ''zz''
   \<and> calls (snd (getitem bare_env 0 (Name ''zz'')
              (snd (getitem bare_env 0 (Name ''zz'') fresh_world))))
       = [ImportCall ''zz'', ImportCall ''zz'']
   \<and> import_module empty_name_env [] = Inl ValueError \<and> ValueError \<noteq> ImportError
   \<and> fst (getitem empty_name_env 0 (Name []) fresh_world) = Inl ValueError"
proof -
  have h1: "\<not> contains 0 fresh_world n" for n
    by (simp add: contains_def fresh_world_def dict_contains_def)
  have h2: "sys_modules bare_env ''zz'' = None" by (simp add: bare_env_def)
  have h3: "import_module bare_env ''zz'' = Inl ImportError" by (simp add: bare_env_def)
  have h4: "sys_modules empty_name_env [] = None" by (simp add: empty_name_env_def)
  have h5: "import_module empty_name_env [] = Inl ValueError" by (simp add: empty_name_env_def)
  have twice: "calls (snd (getitem bare_env 0 (Name ''zz'')
              (snd (getitem bare_env 0 (Name ''zz'') fresh_world))))
       = [ImportCall ''zz'', ImportCall ''zz'']"
    by (simp add: getitem_def bare_env_def fresh_world_def dict_contains_def)
  note T = failed_import_not_cached [OF h1 h2, of ImportError bare_env]
  note U = failed_import_not_cached [OF h1 h4, of ValueError bare_env]
  have a: "fst (getitem bare_env 0 (Name ''zz'') fresh_world) = Inr None"
    using T h3 by simp
  have b: "\<not> contains 0 (snd (getitem bare_env 0 (Name ''zz'') fresh_world)) ''zz''"
    using T h3 by blast
  have c: "fst (getitem empty_name_env 0 (Name []) fresh_world) = Inl ValueError"
    using U h5 by simp
  show ?thesis using h1 h2 h3 h5 twice a b c by simp
qed

text \<open>
  A name whose entry in \<^verbatim>\<open>sys.modules\<close> is \<^verbatim>\<open>None\<close> is not imported at all: line 104
  takes the entry and the lookup raises \<^verbatim>\<open>AttributeError\<close>.
\<close>

lemma blocked_name_raises:
  assumes "\<not> contains self w n" and "sys_modules e n = Some None"
  shows "getitem e self (Name n) w = (Inl AttributeError, w)"
  using assms
  by (simp add: getitem_def contains_def store_deduced_def deduce_version_of_def)

text \<open>
  The lookup of the empty name, whose import fails with \<^verbatim>\<open>ValueError\<close>, does not return
  \<^verbatim>\<open>None\<close>: it raises.
\<close>

theorem failed_import_counterexample:
  "\<not> contains 0 fresh_world [] \<and> sys_modules empty_name_env [] = None
   \<and> import_module empty_name_env [] = Inl ValueError
   \<and> fst (getitem empty_name_env 0 (Name []) fresh_world) = Inl ValueError
   \<and> fst (getitem empty_name_env 0 (Name []) fresh_world) \<noteq> Inr None"
  by (simp add: getitem_def empty_name_env_def fresh_world_def contains_def dict_contains_def)

section \<open>Properties of resolution\<close>

text \<open>
  Claim C2. Resolution is not total: a handle whose \<^verbatim>\<open>__version__\<close> is the number 5
  makes \<^verbatim>\<open>StrictVersion(5)\<close> raise \<^verbatim>\<open>TypeError\<close>, which \<^verbatim>\<open>except ValueError\<close> does
  not catch, so \<^verbatim>\<open>_deduce_version\<close> and the lookup by handle raise it to the caller and
  nothing is cached.
\<close>

theorem numeric_version_attribute_raises:
  "deduce_version e module_numeric = (Inl TypeError, [])
   \<and> getitem e 0 (Handle module_numeric) fresh_world = (Inl TypeError, fresh_world)"
  by (simp add: deduce_version_def module_numeric_def probe_def metadata_fallback_def
      parse_version_def getitem_def store_deduced_def deduce_version_of_def fresh_world_def
      dict_contains_def)

lemma dist_name_eq:
  "dist_name n = (if n = ''citeproc'' then ''citeproc-py'' else n)"
  by (simp add: dist_name_def aliases_def)

lemma StrictVersion_parse_cases:
  "StrictVersion_parse s = Inl ValueError
   \<or> (\<exists>v p. StrictVersion_parse s = Inr (StrictVersion v p))"
  by (auto simp: StrictVersion_parse_def split: option.splits prod.splits)

lemma parse_version_str:
  "\<exists>v. parse_version (Atom (PStr s)) = Inr v"
  using StrictVersion_parse_cases [of s]
  by (auto simp: parse_version_def)

lemma parse_version_falsy: "\<not> truthy v \<Longrightarrow> parse_version v = Inr UNKNOWN"
  by (simp add: parse_version_def)

lemma deduce_version_falsy:
  assumes "\<not> truthy (stringify (probe m))"
  shows "deduce_version e m =
     (case metadata_version e (dist_name (mod_name m)) of
        None \<Rightarrow> Inr UNKNOWN | Some s \<Rightarrow> parse_version (Atom (PStr s)),
      [MetadataCall (dist_name (mod_name m))])"
  using assms
  by (simp add: deduce_version_def metadata_fallback_def parse_version_falsy split: option.splits)

lemma deduce_version_truthy:
  assumes "truthy (stringify (probe m))"
  shows "deduce_version e m = (parse_version (stringify (probe m)), [])"
  using assms by (simp add: deduce_version_def metadata_fallback_def)

text \<open>
  Resolution does not raise when the attribute found is missing, falsy, a string or a
  sequence: only a truthy value of another type makes it raise.
\<close>

lemma deduce_version_total_on_strings:
  assumes "(\<exists>s. stringify (probe m) = Atom (PStr s)) \<or> \<not> truthy (stringify (probe m))"
  shows "\<exists>v. fst (deduce_version e m) = Inr v"
proof (cases "truthy (stringify (probe m))")
  case True
  then obtain s where "stringify (probe m) = Atom (PStr s)" using assms by auto
  then show ?thesis
    using True parse_version_str [of s] by (simp add: deduce_version_truthy)
next
  case False
  then show ?thesis
    using parse_version_str by (auto simp: deduce_version_falsy split: option.splits)
qed

text \<open>
  Claim C6. When the attribute found (after joining a sequence) is falsy or no attribute
  is present, resolution makes exactly one metadata call, for \<^verbatim>\<open>citeproc-py\<close> when the
  module's name is \<^verbatim>\<open>citeproc\<close> and for the module's name otherwise. A failing
  metadata call gives \<^verbatim>\<open>UNKNOWN\<close>, a returned string is parsed, and in no case is an
  exception raised.
\<close>

theorem metadata_fallback_with_alias:
  assumes "\<not> truthy (stringify (probe m))"
  shows "snd (deduce_version e m)
           = [MetadataCall (if mod_name m = ''citeproc'' then ''citeproc-py'' else mod_name m)]
       \<and> fst (deduce_version e m)
           = (case metadata_version e
                     (if mod_name m = ''citeproc'' then ''citeproc-py'' else mod_name m) of
                None \<Rightarrow> Inr UNKNOWN
              | Some s \<Rightarrow> parse_version (Atom (PStr s)))
       \<and> (\<exists>v. fst (deduce_version e m) = Inr v)"
  using parse_version_str
  by (auto simp: deduce_version_falsy [OF assms] dist_name_eq split: option.splits)

theorem metadata_fallback_with_alias_witness:
  "\<not> truthy (stringify (probe module_citeproc))
   \<and> deduce_version citeproc_env module_citeproc
       = (Inr (StrictVersion (0, 6, 0) None), [MetadataCall ''citeproc-py''])
   \<and> deduce_version bare_env module_citeproc = (Inr UNKNOWN, [MetadataCall ''citeproc-py''])"
proof -
  have h: "\<not> truthy (stringify (probe module_citeproc))"
    by (simp add: module_citeproc_def probe_def)
  have p: "parse_version (Atom (PStr ''0.6.0'')) = Inr (StrictVersion (0, 6, 0) None)"
    by code_simp
  have a: "deduce_version citeproc_env module_citeproc
       = (Inr (StrictVersion (0, 6, 0) None), [MetadataCall ''citeproc-py''])"
    using metadata_fallback_with_alias [OF h, of citeproc_env] p
    by (simp add: prod_eq_iff module_citeproc_def citeproc_env_def)
  have b: "deduce_version bare_env module_citeproc = (Inr UNKNOWN, [MetadataCall ''citeproc-py''])"
    using metadata_fallback_with_alias [OF h, of bare_env]
    by (simp add: prod_eq_iff module_citeproc_def bare_env_def)
  show ?thesis using h a b by blast
qed

lemma parse_version_loose:
  assumes "s \<noteq> []" and "StrictVersion_parse s = Inl ValueError"
  shows "parse_version (Atom (PStr s)) = Inr (LooseVersion_parse s)"
  using assms by (simp add: parse_version_def)

text \<open>
  Claim C5. A non-empty version string \<open>s\<close>, found in the attribute or returned by the
  metadata lookup, that \<^verbatim>\<open>StrictVersion\<close> rejects with \<^verbatim>\<open>ValueError\<close> resolves to
  \<^verbatim>\<open>LooseVersion(s)\<close>: the loose constructor does not fail on a string, the result is
  not the sentinel, and no error reaches the caller. The string \<^verbatim>\<open>"2021.08-beta"\<close> is
  such a string.
\<close>

theorem strict_failure_falls_back_to_loose:
  "(s \<noteq> [] \<and> StrictVersion_parse s = Inl ValueError
      \<and> (stringify (probe m) = Atom (PStr s)
           \<or> (\<not> truthy (stringify (probe m))
                \<and> metadata_version e (dist_name (mod_name m)) = Some s))
    \<longrightarrow> fst (deduce_version e m) = Inr (LooseVersion_parse s)
        \<and> LooseVersion_init (Atom (PStr s)) = Inr (LooseVersion_parse s)
        \<and> LooseVersion_parse s \<noteq> UNKNOWN
        \<and> version_str (LooseVersion_parse s) = s)
   \<and> StrictVersion_parse ''2021.08-beta'' = Inl ValueError
   \<and> deduce_version e' module_beta
       = (Inr (LooseVersion ''2021.08-beta'' [CInt 2021, CInt 8, CStr ''-'', CStr ''beta'']), [])"
proof -
  have strict: "StrictVersion_parse ''2021.08-beta'' = Inl ValueError"
    by code_simp
  have loose: "LooseVersion_parse ''2021.08-beta''
      = LooseVersion ''2021.08-beta'' [CInt 2021, CInt 8, CStr ''-'', CStr ''beta'']"
    by code_simp
  have beta: "stringify (probe module_beta) = Atom (PStr ''2021.08-beta'')"
    by (simp add: module_beta_def probe_def)
  have concrete: "deduce_version e' module_beta
       = (Inr (LooseVersion ''2021.08-beta'' [CInt 2021, CInt 8, CStr ''-'', CStr ''beta'']), [])"
    using parse_version_loose [OF _ strict] loose
    by (simp add: deduce_version_truthy beta)
  have general: "fst (deduce_version e m) = Inr (LooseVersion_parse s)"
    if "s \<noteq> []" and "StrictVersion_parse s = Inl ValueError"
      and "stringify (probe m) = Atom (PStr s)
           \<or> (\<not> truthy (stringify (probe m))
                \<and> metadata_version e (dist_name (mod_name m)) = Some s)"
    using that(3)
  proof
    assume "stringify (probe m) = Atom (PStr s)"
    then show ?thesis
      using that(1,2) by (simp add: deduce_version_truthy parse_version_loose)
  next
    assume "\<not> truthy (stringify (probe m))
            \<and> metadata_version e (dist_name (mod_name m)) = Some s"
    then show ?thesis
      using that(1,2) by (simp add: deduce_version_falsy parse_version_loose)
  qed
  have str: "LooseVersion_parse s \<noteq> UNKNOWN \<and> version_str (LooseVersion_parse s) = s"
    by (simp add: LooseVersion_parse_def)
  show ?thesis using strict concrete general str by simp
qed

theorem strict_failure_falls_back_to_loose_witness:
  "''1.2.3.4'' \<noteq> [] \<and> StrictVersion_parse ''1.2.3.4'' = Inl ValueError
   \<and> \<not> truthy (stringify (probe module_citeproc))
   \<and> fst (deduce_version
        (bare_env\<lparr>metadata_version := (\<lambda>n. Some ''1.2.3.4'')\<rparr>) module_citeproc)
       = Inr (LooseVersion ''1.2.3.4'' [CInt 1, CInt 2, CInt 3, CInt 4])"
proof -
  have h1: "StrictVersion_parse ''1.2.3.4'' = Inl ValueError" by code_simp
  have h2: "\<not> truthy (stringify (probe module_citeproc))"
    by (simp add: module_citeproc_def probe_def)
  have h3: "metadata_version (bare_env\<lparr>metadata_version := (\<lambda>n. Some ''1.2.3.4'')\<rparr>)
              (dist_name (mod_name module_citeproc)) = Some ''1.2.3.4''"
    by simp
  have l: "LooseVersion_parse ''1.2.3.4'' = LooseVersion ''1.2.3.4'' [CInt 1, CInt 2, CInt 3, CInt 4]"
    by code_simp
  have "fst (deduce_version
        (bare_env\<lparr>metadata_version := (\<lambda>n. Some ''1.2.3.4'')\<rparr>) module_citeproc)
       = Inr (LooseVersion_parse ''1.2.3.4'')"
    using strict_failure_falls_back_to_loose [of "''1.2.3.4''" module_citeproc
        "bare_env\<lparr>metadata_version := (\<lambda>n. Some ''1.2.3.4'')\<rparr>"] h1 h2 h3
    by blast
  then show ?thesis using h1 h2 l by simp
qed

lemma probe_set_dunder: "probe (m\<lparr>attr_dunder_version := Some v\<rparr>) = v"
  by (simp add: probe_def)

text \<open>
  Claim C7. When the attribute found is a tuple or a list \<open>xs\<close>, resolution proceeds
  exactly as for a module whose \<^verbatim>\<open>__version__\<close> is the string of the parts joined by
  dots. The tuple \<^verbatim>\<open>(1, 4, 2)\<close> resolves to the result of \<^verbatim>\<open>StrictVersion("1.4.2")\<close>,
  which is a strict version.
\<close>

theorem sequence_joined_before_parsing:
  "(probe m = PTuple xs \<or> probe m = PList xs
     \<longrightarrow> deduce_version e m
         = deduce_version e
             (m\<lparr>attr_dunder_version := Some (Atom (PStr (join ''.'' (map py_str xs))))\<rparr>))
   \<and> join ''.'' (map py_str [PInt 1, PInt 4, PInt 2]) = ''1.4.2''
   \<and> StrictVersion_parse ''1.4.2'' = Inr (StrictVersion (1, 4, 2) None)
   \<and> deduce_version e' module_tuple = (StrictVersion_parse ''1.4.2'', [])"
proof -
  have general: "deduce_version e m
         = deduce_version e
             (m\<lparr>attr_dunder_version := Some (Atom (PStr (join ''.'' (map py_str xs))))\<rparr>)"
    if "probe m = PTuple xs \<or> probe m = PList xs"
  proof -
    have a: "stringify (probe m) = Atom (PStr (join ''.'' (map py_str xs)))"
      using that by auto
    show ?thesis
      by (simp add: deduce_version_def metadata_fallback_def probe_set_dunder a
          split: option.splits)
  qed
  have j: "join ''.'' (map py_str [PInt 1, PInt 4, PInt 2]) = ''1.4.2''"
    by code_simp
  have p: "StrictVersion_parse ''1.4.2'' = Inr (StrictVersion (1, 4, 2) None)"
    by code_simp
  have t: "stringify (probe module_tuple) = Atom (PStr ''1.4.2'')"
    using j by (simp add: module_tuple_def probe_def)
  have c: "deduce_version e' module_tuple = (StrictVersion_parse ''1.4.2'', [])"
    using p by (simp add: deduce_version_truthy t parse_version_def)
  show ?thesis using general j p c by simp
qed

theorem sequence_joined_before_parsing_witness:
  "probe (module_a\<lparr>attr_dunder_version := None,
                    attr_version := Some (PList [PStr ''2'', PInt 0, PStr ''rc1''])\<rparr>)
     = PList [PStr ''2'', PInt 0, PStr ''rc1'']
   \<and> deduce_version bare_env
        (module_a\<lparr>attr_dunder_version := None,
                    attr_version := Some (PList [PStr ''2'', PInt 0, PStr ''rc1''])\<rparr>)
     = (Inr (LooseVersion ''2.0.rc1'' [CInt 2, CInt 0, CStr ''rc'', CInt 1]), [])"
proof -
  let ?m = "module_a\<lparr>attr_dunder_version := None,
                    attr_version := Some (PList [PStr ''2'', PInt 0, PStr ''rc1''])\<rparr>"
  have h: "probe ?m = PList [PStr ''2'', PInt 0, PStr ''rc1'']"
    by (simp add: probe_def module_a_def)
  have j: "join ''.'' (map py_str [PStr ''2'', PInt 0, PStr ''rc1'']) = ''2.0.rc1''"
    by code_simp
  have p: "parse_version (Atom (PStr ''2.0.rc1''))
      = Inr (LooseVersion ''2.0.rc1'' [CInt 2, CInt 0, CStr ''rc'', CInt 1])"
    by code_simp
  have "deduce_version bare_env ?m
     = deduce_version bare_env
         (?m\<lparr>attr_dunder_version :=
                Some (Atom (PStr (join ''.'' (map py_str [PStr ''2'', PInt 0, PStr ''rc1'']))))\<rparr>)"
    using sequence_joined_before_parsing [of ?m "[PStr ''2'', PInt 0, PStr ''rc1'']" bare_env] h
    by blast
  then have "deduce_version bare_env ?m
     = deduce_version bare_env (?m\<lparr>attr_dunder_version := Some (Atom (PStr ''2.0.rc1''))\<rparr>)"
    by (simp only: j)
  also have "\<dots> = (Inr (LooseVersion ''2.0.rc1'' [CInt 2, CInt 0, CStr ''rc'', CInt 1]), [])"
  proof -
    let ?m2 = "?m\<lparr>attr_dunder_version := Some (Atom (PStr ''2.0.rc1''))\<rparr>"
    have pr: "stringify (probe ?m2) = Atom (PStr ''2.0.rc1'')"
      by (simp add: probe_def)
    have tr: "truthy (stringify (probe ?m2))"
      by (simp add: probe_def)
    show ?thesis
      using deduce_version_truthy [OF tr, of bare_env] by (simp add: probe_def p)
  qed
  finally show ?thesis using h by simp
qed

lemma stringify_falsy: "\<not> truthy v \<Longrightarrow> \<not> truthy (stringify v)"
  by (cases v rule: stringify.cases) simp_all

text \<open>
  Claim C10. When \<^verbatim>\<open>__version__\<close> is present and falsy, the attribute \<^verbatim>\<open>version\<close>
  has no influence on resolution, whatever it holds, and resolution goes to the metadata
  lookup.
\<close>

theorem present_dunder_version_stops_probing:
  assumes "attr_dunder_version m = Some v" and "\<not> truthy v"
  shows "deduce_version e (m\<lparr>attr_version := a\<rparr>) = deduce_version e m
       \<and> snd (deduce_version e m) = [MetadataCall (dist_name (mod_name m))]
       \<and> fst (deduce_version e m)
           = (case metadata_version e (dist_name (mod_name m)) of
                None \<Rightarrow> Inr UNKNOWN
              | Some s \<Rightarrow> parse_version (Atom (PStr s)))"
proof -
  have p: "probe m = v" "probe (m\<lparr>attr_version := a\<rparr>) = v"
    using assms(1) by (simp_all add: probe_def)
  have f: "\<not> truthy (stringify (probe m))"
    using assms(2) p by (simp add: stringify_falsy)
  have "deduce_version e (m\<lparr>attr_version := a\<rparr>) = deduce_version e m"
    using p by (simp add: deduce_version_def metadata_fallback_def split: option.splits)
  then show ?thesis by (simp add: deduce_version_falsy [OF f])
qed

theorem present_dunder_version_stops_probing_witness:
  "attr_dunder_version module_empty_dunder = Some (Atom (PStr []))
   \<and> \<not> truthy (Atom (PStr []))
   \<and> attr_version module_empty_dunder = Some (Atom (PStr ''1.2.3''))
   \<and> deduce_version bare_env module_empty_dunder = (Inr UNKNOWN, [MetadataCall ''d''])"
proof -
  have h1: "attr_dunder_version module_empty_dunder = Some (Atom (PStr []))"
    by (simp add: module_empty_dunder_def)
  have h2: "\<not> truthy (Atom (PStr []))" by simp
  have n: "dist_name (mod_name module_empty_dunder) = ''d''"
    by (simp add: module_empty_dunder_def dist_name_eq)
  have "deduce_version bare_env module_empty_dunder = (Inr UNKNOWN, [MetadataCall ''d''])"
    using present_dunder_version_stops_probing [OF h1 h2, of bare_env] n
    by (simp add: prod_eq_iff bare_env_def)
  then show ?thesis using h1 h2 by (simp add: module_empty_dunder_def)
qed

section \<open>Properties of the report and of the snapshot\<close>

lemma format_items_ok:
  "set ks \<subseteq> set (map fst d) \<Longrightarrow>
   format_items d ks
     = Inr (map (\<lambda>k. k @ ''='' @ version_str (dict_get d k UNKNOWN)) ks)"
proof (induction ks)
  case Nil
  then show ?case by simp
next
  case (Cons k ks)
  then have "map_of d k \<noteq> None"
    by (simp add: map_of_eq_None_iff)
  then obtain v where v: "map_of d k = Some v" by auto
  show ?case using Cons v by (simp add: dict_getitem_def dict_get_def)
qed

lemma join_leading_empty:
  "join sep ([] # items) = concat (map (\<lambda>x. sep @ x) items)"
proof (induction items rule: induct_list012)
  case 1 then show ?case by simp
next
  case (2 x) then show ?case by simp
next
  case (3 x y zs)
  then show ?case by simp
qed

lemma lines_regroup:
  "concat (map (\<lambda>x. (ls @ ind) @ x) items) @ ls
     = ls @ concat (map (\<lambda>x. ind @ x @ ls) items)"
  by (induction items) simp_all

text \<open>
  Claim C8, with its example as the code prints it. \<^verbatim>\<open>dumps\<close> never raises. With a
  falsy \<open>indent\<close> it returns the preamble, a space, and the entries \<^verbatim>\<open>name=version\<close>
  joined by spaces; with a truthy \<open>indent\<close> it returns the preamble, the line terminator,
  and one line per entry, made of the indent string (a space for \<^verbatim>\<open>True\<close>), the entry
  and the line terminator. The entries follow the sorted names. For the cache
  \<^verbatim>\<open>{a: StrictVersion("1.0.0"), b: UNKNOWN}\<close> the indented report has the line
  \<^verbatim>\<open>" a=1.0"\<close>: \<^verbatim>\<open>StrictVersion.__str__\<close> leaves out a patch number that is zero.
  (\<open>dict_get\<close> never takes its default here: the names are the keys of the dict.)
\<close>

theorem dumps_format:
  "dumps linesep self w indent preamble =
     Inr (if indent_truthy indent then
            preamble @ linesep @
            concat (map (\<lambda>k. indent_string indent @ k @ ''=''
                               @ version_str (dict_get (heap w self) k UNKNOWN) @ linesep)
                        (sort (keys self w)))
          else
            preamble @ '' '' @
            join '' '' (map (\<lambda>k. k @ ''='' @ version_str (dict_get (heap w self) k UNKNOWN))
                            (sort (keys self w))))
   \<and> indent_string (IndentBool True) = '' ''
   \<and> sorted (sort (keys self w)) \<and> set (sort (keys self w)) = set (keys self w)
   \<and> dumps linesep 0 report_world (IndentBool True) ''Versions:''
       = Inr (''Versions:'' @ linesep @ '' a=1.0'' @ linesep @ '' b=UNKNOWN'' @ linesep)"
proof -
  let ?d = "heap w self"
  let ?entry = "\<lambda>k. k @ ''='' @ version_str (dict_get ?d k UNKNOWN)"
  have items: "format_items ?d (sort (map fst ?d)) = Inr (map ?entry (sort (map fst ?d)))"
    by (rule format_items_ok) simp
  have general: "dumps linesep self w indent preamble =
     Inr (if indent_truthy indent then
            preamble @ linesep @
            concat (map (\<lambda>k. indent_string indent @ ?entry k @ linesep) (sort (keys self w)))
          else preamble @ '' '' @ join '' '' (map ?entry (sort (keys self w))))"
    using lines_regroup [of linesep "indent_string indent" "map ?entry (sort (map fst ?d))"]
    by (simp add: dumps_def items keys_def join_leading_empty comp_def)
  have srt: "sort [''b'', ''a''] = [''a'', ''b'']"
    by code_simp
  have va: "str_nat 0 = ''0''" "str_nat (Suc 0) = ''1''"
    by (simp_all add: str_nat.simps digit_char_def)
  have example: "dumps linesep 0 report_world (IndentBool True) ''Versions:''
       = Inr (''Versions:'' @ linesep @ '' a=1.0'' @ linesep @ '' b=UNKNOWN'' @ linesep)"
    by (simp add: dumps_def report_world_def srt dict_getitem_def va)
  show ?thesis using general example by simp
qed

theorem dumps_format_witness:
  "dumps ''NL'' 0 report_world (IndentBool False) ''Versions:''
     = Inr ''Versions: a=1.0 b=UNKNOWN''
   \<and> dumps ''NL'' 0 report_world (IndentStr ''--'') ''Versions:''
     = Inr ''Versions:NL--a=1.0NL--b=UNKNOWNNL''"
proof -
  have srt: "sort (keys 0 report_world) = [''a'', ''b'']"
    unfolding keys_def report_world_def by code_simp
  have va: "str_nat 0 = ''0''" "str_nat (Suc 0) = ''1''"
    by (simp_all add: str_nat.simps digit_char_def)
  have vs: "map (\<lambda>k. version_str (dict_get (heap report_world 0) k UNKNOWN)) [''a'', ''b'']
              = [''1.0'', ''UNKNOWN'']"
    by (simp add: report_world_def dict_get_def va)
  show ?thesis
    using vs
    by (simp add: dumps_format [of _ 0 report_world] srt)
qed

text \<open>
  The report of that cache is not the text with the line \<^verbatim>\<open>" a=1.0.0"\<close>; the line
  terminator here is the newline.
\<close>

theorem dumps_example_counterexample:
  "dumps [CHR 0x0A] 0 report_world (IndentBool True) ''Versions:''
     \<noteq> Inr (''Versions:'' @ [CHR 0x0A] @ '' a=1.0.0'' @ [CHR 0x0A] @ '' b=UNKNOWN'' @ [CHR 0x0A])"
proof -
  have srt: "sort [''b'', ''a''] = [''a'', ''b'']"
    by code_simp
  have va: "str_nat 0 = ''0''" "str_nat (Suc 0) = ''1''"
    by (simp_all add: str_nat.simps digit_char_def)
  show ?thesis
    by (simp add: dumps_def report_world_def srt dict_getitem_def va)
qed

lemma getitem_local:
  assumes "heap w self = heap w' self" and "calls w = calls w'"
  shows "fst (getitem e self k w) = fst (getitem e self k w')
       \<and> heap (snd (getitem e self k w)) self = heap (snd (getitem e self k w')) self
       \<and> calls (snd (getitem e self k w)) = calls (snd (getitem e self k w'))"
  using assms
  by (auto simp: getitem_def store_deduced_def Let_def
      split: option.splits prod.splits sum.splits error.splits)

text \<open>
  A registry made by \<^verbatim>\<open>__init__\<close> lies below \<open>next_addr\<close>, and stays there.
\<close>

lemma ExternalVersions_init_allocated:
  "fst (ExternalVersions_init w) < next_addr (snd (ExternalVersions_init w))
   \<and> heap (snd (ExternalVersions_init w)) (fst (ExternalVersions_init w)) = []"
  by (simp add: ExternalVersions_init_def)

lemma getitem_next_addr: "next_addr (snd (getitem e self k w)) = next_addr w"
  by (auto simp: getitem_def store_deduced_def Let_def
      split: option.splits prod.splits sum.splits error.splits)

lemma versions_next_addr: "next_addr (snd (versions self w)) = Suc (next_addr w)"
  by (simp add: versions_def)

text \<open>
  Claim C9. The dict returned by \<^verbatim>\<open>versions\<close> has the contents of the cache and lives at
  a new address. Whatever the caller turns it into (\<open>d\<close>), the registry answers as if
  nothing had happened: a lookup returns the same result, leaves the same cache and makes
  the same capability calls as on the state before the snapshot was taken, and
  \<^verbatim>\<open>in\<close> and \<^verbatim>\<open>keys\<close> are unchanged.
\<close>

theorem snapshot_is_a_copy:
  assumes "self < next_addr w"
  shows "heap (snd (versions self w)) (fst (versions self w)) = heap w self
       \<and> heap (mutate (fst (versions self w)) d (snd (versions self w))) (fst (versions self w)) = d
       \<and> fst (getitem e self k (mutate (fst (versions self w)) d (snd (versions self w))))
           = fst (getitem e self k w)
       \<and> heap (snd (getitem e self k (mutate (fst (versions self w)) d (snd (versions self w))))) self
           = heap (snd (getitem e self k w)) self
       \<and> calls (snd (getitem e self k (mutate (fst (versions self w)) d (snd (versions self w)))))
           = calls (snd (getitem e self k w))
       \<and> contains self (mutate (fst (versions self w)) d (snd (versions self w))) n
           = contains self w n
       \<and> keys self (mutate (fst (versions self w)) d (snd (versions self w))) = keys self w"
proof -
  let ?w2 = "mutate (fst (versions self w)) d (snd (versions self w))"
  have ne: "next_addr w \<noteq> self" using assms by simp
  have h: "heap ?w2 self = heap w self"
    using ne by (simp add: versions_def mutate_def)
  have c: "calls ?w2 = calls w"
    by (simp add: versions_def mutate_def)
  show ?thesis
    using getitem_local [OF h c, of e k] h
    by (simp add: contains_def keys_def) (simp add: versions_def mutate_def)
qed

theorem snapshot_is_a_copy_witness:
  "0 < next_addr report_world
   \<and> heap (mutate (fst (versions 0 report_world)) [] (snd (versions 0 report_world)))
        (fst (versions 0 report_world)) = []
   \<and> fst (getitem bare_env 0 (Name ''a'')
           (mutate (fst (versions 0 report_world)) [] (snd (versions 0 report_world))))
       = Inr (Some (StrictVersion (1, 0, 0) None))
   \<and> contains 0 (mutate (fst (versions 0 report_world)) [] (snd (versions 0 report_world))) ''a''"
proof -
  have h: "0 < next_addr report_world"
    by (simp add: report_world_def)
  note T = snapshot_is_a_copy [OF h, of "[]" bare_env "Name ''a''" "''a''"]
  have g: "fst (getitem bare_env 0 (Name ''a'') report_world)
             = Inr (Some (StrictVersion (1, 0, 0) None))"
    by (simp add: getitem_def report_world_def dict_contains_def dict_get_def)
  have c: "contains 0 report_world ''a''"
    by (simp add: contains_def report_world_def dict_contains_def)
  show ?thesis using h T g c by simp
qed

end
